theory Spec2Isabelle
  imports Complex_Main "HOL-Library.Multiset"
begin

section \<open>JavaScript values\<close>

text \<open>
  A JavaScript \<^verbatim>\<open>number\<close> is either \<^verbatim>\<open>NaN\<close> or a finite value, which is modelled by the
  real it denotes. Grades are multiples of 0.25 between 1 and 6 and points are small
  integers, and on those values binary floating-point subtraction, addition and comparison
  are exact, so the operations below compute what the runtime computes. The infinities
  are not modelled: no value of the program's domain reaches them.
\<close>

datatype jsnum = NaN | Fin real

text \<open>
  The fields of the records that arrive as JSON are optional numbers: a field may be
  \<^verbatim>\<open>undefined\<close> (absent), \<^verbatim>\<open>null\<close>, or a number.
\<close>

datatype jsval = Undefined | Null | Num jsnum

fun js_sub :: "jsnum \<Rightarrow> jsnum \<Rightarrow> jsnum" where
  "js_sub (Fin a) (Fin b) = Fin (a - b)"
| "js_sub _ _ = NaN"

fun js_add :: "jsnum \<Rightarrow> jsnum \<Rightarrow> jsnum" where
  "js_add (Fin a) (Fin b) = Fin (a + b)"
| "js_add _ _ = NaN"

fun js_abs :: "jsnum \<Rightarrow> jsnum" where
  "js_abs (Fin a) = Fin \<bar>a\<bar>"
| "js_abs NaN = NaN"

text \<open>Every comparison with \<^verbatim>\<open>NaN\<close> is false, strict equality included.\<close>

fun js_le :: "jsnum \<Rightarrow> jsnum \<Rightarrow> bool" where
  "js_le (Fin a) (Fin b) = (a \<le> b)"
| "js_le _ _ = False"

fun js_lt :: "jsnum \<Rightarrow> jsnum \<Rightarrow> bool" where
  "js_lt (Fin a) (Fin b) = (a < b)"
| "js_lt _ _ = False"

fun js_ge :: "jsnum \<Rightarrow> jsnum \<Rightarrow> bool" where
  "js_ge (Fin a) (Fin b) = (a \<ge> b)"
| "js_ge _ _ = False"

fun js_gt :: "jsnum \<Rightarrow> jsnum \<Rightarrow> bool" where
  "js_gt (Fin a) (Fin b) = (a > b)"
| "js_gt _ _ = False"

fun js_eq :: "jsnum \<Rightarrow> jsnum \<Rightarrow> bool" where
  "js_eq (Fin a) (Fin b) = (a = b)"
| "js_eq _ _ = False"

text \<open>\<^verbatim>\<open>v === null || v === undefined\<close>, the test behind \<^verbatim>\<open>??\<close> and \<^verbatim>\<open>?.\<close>.\<close>

fun nullish :: "jsval \<Rightarrow> bool" where
  "nullish Undefined = True"
| "nullish Null = True"
| "nullish (Num _) = False"

text \<open>\<^verbatim>\<open>Number.isNaN\<close>: true for the number \<^verbatim>\<open>NaN\<close> only, without coercion.\<close>

fun isNaN :: "jsval \<Rightarrow> bool" where
  "isNaN (Num NaN) = True"
| "isNaN _ = False"

text \<open>Truthiness of an optional number: \<^verbatim>\<open>undefined\<close>, \<^verbatim>\<open>null\<close>, \<^verbatim>\<open>NaN\<close> and 0 are falsy.\<close>

fun truthy :: "jsval \<Rightarrow> bool" where
  "truthy (Num (Fin x)) = (x \<noteq> 0)"
| "truthy _ = False"

text \<open>The coercion \<^verbatim>\<open>ToNumber\<close> that the arithmetic operators apply to their operands.\<close>

fun to_number :: "jsval \<Rightarrow> jsnum" where
  "to_number (Num n) = n"
| "to_number Null = Fin 0"
| "to_number Undefined = NaN"

text \<open>\<^verbatim>\<open>a ?? b\<close> and \<^verbatim>\<open>a || b\<close>.\<close>

definition nullish_coalesce :: "jsval \<Rightarrow> jsval \<Rightarrow> jsval" where
  "nullish_coalesce a b = (if nullish a then b else a)"

definition logical_or :: "jsval \<Rightarrow> jsval \<Rightarrow> jsval" where
  "logical_or a b = (if truthy a then a else b)"

section \<open>Point table (lib/points)\<close>

definition calculatePoints :: "jsnum \<Rightarrow> jsnum \<Rightarrow> jsnum" where
  "calculatePoints prediction actualGrade =
     (let difference = js_abs (js_sub prediction actualGrade) in
      if js_eq difference (Fin 0) then Fin 5
      else if js_le difference (Fin 0.25) then Fin 4
      else if js_le difference (Fin 0.5) then Fin 3
      else if js_le difference (Fin 0.75) then Fin 2
      else if js_le difference (Fin 1.0) then Fin 1
      else Fin 0)"

definition calculatePredictionPoints :: "jsval \<Rightarrow> jsval \<Rightarrow> jsval" where
  "calculatePredictionPoints prediction actualGrade =
     (if prediction = Null \<or> prediction = Undefined then Undefined
      else if actualGrade = Null \<or> actualGrade = Undefined \<or> isNaN actualGrade then Undefined
      else Num (calculatePoints (to_number prediction) (to_number actualGrade)))"

text \<open>
  \<^verbatim>\<open>getGradeOptions\<close> steps a floating-point counter. Here the rounding of the runtime is
  explicit: \<open>rd\<close> maps the exact result of an arithmetic operation to the number that the
  operation returns. Whatever else it does, an IEEE 754 operation returns the exact result
  when that is a binary64 number; \<open>binary64\<close> describes those numbers (a significand below
  \<open>2 ^ 53\<close> in magnitude and a binary exponent in range). \<^verbatim>\<open>Math.round\<close> is exact by
  definition: the nearest integer, ties towards \<open>+\<infinity>\<close>. The literals 1, 6, 0.25 and 100 are
  binary64 numbers. The loop has no bound that holds for every \<open>rd\<close>, so not returning is
  the value \<open>None\<close>.
\<close>

definition binary64 :: "real \<Rightarrow> bool" where
  "binary64 x \<longleftrightarrow>
     (\<exists>m e :: int. \<bar>m\<bar> < 2 ^ 53 \<and> - 1074 \<le> e \<and> e \<le> 971 \<and> x = of_int m * 2 powi e)"

definition math_round :: "real \<Rightarrow> real" where
  "math_round x = of_int \<lfloor>x + 1 / 2\<rfloor>"

partial_function (option) gradeLoop :: "(real \<Rightarrow> real) \<Rightarrow> real \<Rightarrow> real list \<Rightarrow> real list option" where
  "gradeLoop rd i options =
     (if i \<le> 6
      then gradeLoop rd (rd (i + 0.25)) (options @ [rd (math_round (rd (i * 100)) / 100)])
      else Some options)"

definition getGradeOptions :: "(real \<Rightarrow> real) \<Rightarrow> real list option" where
  "getGradeOptions rd = gradeLoop rd 1 []"

section \<open>Data model (types)\<close>

text \<open>
  The records carry the fields that the modelled functions read. An exam's \<^verbatim>\<open>date\<close> is an
  ISO string in the source and is only ever used through \<^verbatim>\<open>new Date(exam.date)\<close>; the field
  holds the time value of that object in milliseconds since the epoch, \<open>None\<close> for an
  unparsable string (an invalid date, whose time value is \<^verbatim>\<open>NaN\<close>). The optional
  \<^verbatim>\<open>grades\<close> object maps student ids to grades.
\<close>

datatype UserRole = Student | Teacher

record User =
  user_id :: string
  username :: string
  role :: UserRole

datatype ExamStatus = Open | Evaluation | Closed

record Exam =
  exam_id :: string
  title :: string
  subject :: string
  date :: "int option"
  isClosed :: bool
  grades :: "(string \<rightharpoonup> jsnum) option"

record Prediction =
  examId :: string
  studentId :: string
  prediction1 :: jsval
  prediction2 :: jsval
  points1 :: jsval
  points2 :: jsval

text \<open>\<^verbatim>\<open>exam.grades[id]\<close>, also \<^verbatim>\<open>undefined\<close> when the key is missing.\<close>

definition grade_of :: "Exam \<Rightarrow> string \<Rightarrow> jsval" where
  "grade_of exam sid =
     (case grades exam of
        None \<Rightarrow> Undefined
      | Some g \<Rightarrow> (case g sid of None \<Rightarrow> Undefined | Some n \<Rightarrow> Num n))"

section \<open>Exam status (lib/examUtils)\<close>

text \<open>
  \<^verbatim>\<open>getExamStatus\<close> has the exam as its only parameter and reads the current time with
  \<^verbatim>\<open>new Date()\<close>. The runtime it runs in is made explicit: \<open>clock\<close> is the time value that
  \<^verbatim>\<open>new Date()\<close> yields at the call, and \<open>local_midnight\<close> is what
  \<^verbatim>\<open>setHours(0, 0, 0, 0)\<close> does to a time value in the local time zone.
\<close>

record runtime =
  clock :: int
  local_midnight :: "int \<Rightarrow> int"

text \<open>
  \<^verbatim>\<open>setHours(0, 0, 0, 0)\<close> in a zone that is a constant \<open>tz\<close> milliseconds ahead of UTC:
  the local day of \<open>t\<close> starts \<open>(t + tz) mod 86400000\<close> milliseconds before \<open>t\<close>.
\<close>

definition fixed_offset_midnight :: "int \<Rightarrow> int \<Rightarrow> int" where
  "fixed_offset_midnight tz t = t - (t + tz) mod 86400000"

definition getExamStatus :: "runtime \<Rightarrow> Exam \<Rightarrow> ExamStatus" where
  "getExamStatus rt exam =
     (let now = local_midnight rt (clock rt);
          examDate = map_option (local_midnight rt) (date exam)
      in if isClosed exam then Closed
         else
           let daysSinceExam =
                 (case examDate of
                    None \<Rightarrow> NaN
                  | Some t \<Rightarrow> Fin (of_int \<lfloor>(of_int (now - t) :: real) / (1000 * 60 * 60 * 24)\<rfloor>))
           in if js_ge daysSinceExam (Fin 1) \<and> js_lt daysSinceExam (Fin 5) then Evaluation
              else if js_ge daysSinceExam (Fin 5) then Closed
              else Open)"

definition canSubmitTips :: "runtime \<Rightarrow> Exam \<Rightarrow> bool" where
  "canSubmitTips rt exam =
     (let status = getExamStatus rt exam in status = Open \<or> status = Evaluation)"

section \<open>Arrays\<close>

text \<open>
  \<^verbatim>\<open>Array.prototype.sort\<close> with a comparator is stable: \<open>x\<close> is placed after \<open>y\<close> when
  \<open>cmp x y > 0\<close>, before it when \<open>cmp x y < 0\<close>, and elements that compare as 0 (a \<^verbatim>\<open>NaN\<close>
  result counts as 0) keep their order. Each element is inserted, from the right, in
  front of the elements that followed it, and moves behind those that must precede it.
  For a comparator that orders the elements consistently this is the one result a stable
  sort can have; for any other the order is left to the engine, and no statement below
  depends on the model there.
\<close>

fun insert_sorted :: "('a \<Rightarrow> 'a \<Rightarrow> jsnum) \<Rightarrow> 'a \<Rightarrow> 'a list \<Rightarrow> 'a list" where
  "insert_sorted cmp x [] = [x]"
| "insert_sorted cmp x (y # ys) =
     (if js_gt (cmp x y) (Fin 0) then y # insert_sorted cmp x ys else x # y # ys)"

definition array_sort :: "('a \<Rightarrow> 'a \<Rightarrow> jsnum) \<Rightarrow> 'a list \<Rightarrow> 'a list" where
  "array_sort cmp xs = foldr (insert_sorted cmp) xs []"

text \<open>\<^verbatim>\<open>Array.prototype.findIndex\<close>: the first index whose element passes, or -1.\<close>

fun findIndex_from :: "int \<Rightarrow> ('a \<Rightarrow> bool) \<Rightarrow> 'a list \<Rightarrow> int" where
  "findIndex_from k P [] = - 1"
| "findIndex_from k P (x # xs) = (if P x then k else findIndex_from (k + 1) P xs)"

definition findIndex :: "('a \<Rightarrow> bool) \<Rightarrow> 'a list \<Rightarrow> int" where
  "findIndex P xs = findIndex_from 0 P xs"

section \<open>Global leaderboard (pages/Leaderboard)\<close>

record StudentTotal =
  st_studentId :: string
  st_studentName :: string
  st_totalPoints :: jsnum

record LeaderboardEntry =
  lb_studentId :: string
  lb_studentName :: string
  lb_totalPoints :: jsnum
  lb_rank :: int

text \<open>The body of \<^verbatim>\<open>exams.forEach\<close>: the new value of \<^verbatim>\<open>totalPoints\<close> after one exam.\<close>

definition addExamPoints :: "runtime \<Rightarrow> Prediction list \<Rightarrow> User \<Rightarrow> jsnum \<Rightarrow> Exam \<Rightarrow> jsnum" where
  "addExamPoints rt predictions student totalPoints exam =
     (if getExamStatus rt exam = Closed \<and> grades exam \<noteq> None then
        (case find (\<lambda>p. examId p = exam_id exam \<and> studentId p = user_id student) predictions of
           None \<Rightarrow> totalPoints
         | Some prediction \<Rightarrow>
             let grade = grade_of exam (user_id student);
                 p1 = to_number (nullish_coalesce
                        (nullish_coalesce (points1 prediction)
                           (calculatePredictionPoints (prediction1 prediction) grade))
                        (Num (Fin 0)));
                 p2 = to_number (nullish_coalesce
                        (nullish_coalesce (points2 prediction)
                           (calculatePredictionPoints (prediction2 prediction) grade))
                        (Num (Fin 0)))
             in js_add totalPoints (js_add p1 p2))
      else totalPoints)"

text \<open>\<^verbatim>\<open>let totalPoints = 0; exams.forEach(...)\<close>: the loop over the exams for one student.\<close>

definition totalPointsOf :: "runtime \<Rightarrow> Exam list \<Rightarrow> Prediction list \<Rightarrow> User \<Rightarrow> jsnum" where
  "totalPointsOf rt exams predictions student =
     fold (\<lambda>exam totalPoints. addExamPoints rt predictions student totalPoints exam)
       exams (Fin 0)"

definition studentTotals :: "runtime \<Rightarrow> Exam list \<Rightarrow> User list \<Rightarrow> Prediction list \<Rightarrow> StudentTotal list" where
  "studentTotals rt exams students predictions =
     map (\<lambda>student.
            \<lparr>st_studentId = user_id student,
             st_studentName = username student,
             st_totalPoints = totalPointsOf rt exams predictions student\<rparr>)
       students"

definition withRank :: "nat \<times> StudentTotal \<Rightarrow> LeaderboardEntry" where
  "withRank = (\<lambda>(index, entry).
     \<lparr>lb_studentId = st_studentId entry,
      lb_studentName = st_studentName entry,
      lb_totalPoints = st_totalPoints entry,
      lb_rank = int index + 1\<rparr>)"

definition leaderboard :: "runtime \<Rightarrow> Exam list \<Rightarrow> User list \<Rightarrow> Prediction list \<Rightarrow> LeaderboardEntry list" where
  "leaderboard rt exams students predictions =
     map withRank
       (enumerate 0
          (array_sort (\<lambda>a b. js_sub (st_totalPoints b) (st_totalPoints a))
             (studentTotals rt exams students predictions)))"

text \<open>
  \<^verbatim>\<open>loadLeaderboard\<close> with the answers of the three API calls as arguments; \<open>None\<close> is a
  rejected call. A failing \<^verbatim>\<open>getPredictionsByStudent\<close> is caught inside the loop and
  contributes no predictions; any other failure leaves the page's state unset (\<open>None\<close>).
\<close>

definition loadLeaderboard ::
  "runtime \<Rightarrow> Exam list option \<Rightarrow> User list option \<Rightarrow> (string \<Rightarrow> Prediction list option)
     \<Rightarrow> LeaderboardEntry list option" where
  "loadLeaderboard rt getAllExams getAllUsers getPredictionsByStudent =
     (case getAllExams of
        None \<Rightarrow> None
      | Some exams \<Rightarrow>
          (case getAllUsers of
             None \<Rightarrow> None
           | Some allUsers \<Rightarrow>
               let students = filter (\<lambda>u. role u = Student) allUsers;
                   allPredictions =
                     concat (map (\<lambda>student.
                                    case getPredictionsByStudent (user_id student) of
                                      None \<Rightarrow> []
                                    | Some preds \<Rightarrow> preds)
                               students)
               in Some (leaderboard rt exams students allPredictions)))"

section \<open>Per-student exam results (pages/Profile)\<close>

record Ranking =
  rk_studentId :: string
  rk_totalPoints :: jsnum

record ExamResult =
  res_examId :: string
  res_examTitle :: string
  res_examSubject :: string
  res_examDate :: "int option"
  res_grade :: jsval
  res_rank :: int
  res_totalPoints :: jsnum
  res_prediction1 :: jsval
  res_prediction2 :: jsval
  res_points1 :: jsval
  res_points2 :: jsval

text \<open>\<^verbatim>\<open>pred?.field\<close> on the result of \<^verbatim>\<open>find\<close>.\<close>

definition optional_field :: "('a \<Rightarrow> jsval) \<Rightarrow> 'a option \<Rightarrow> jsval" where
  "optional_field field obj = (case obj of None \<Rightarrow> Undefined | Some x \<Rightarrow> field x)"

text \<open>\<^verbatim>\<open>new Date(s).getTime()\<close> as a number.\<close>

definition getTime :: "int option \<Rightarrow> jsnum" where
  "getTime d = (case d of None \<Rightarrow> NaN | Some t \<Rightarrow> Fin (of_int t))"

text \<open>The closure mapped over the students: one student's entry of \<^verbatim>\<open>examRankings\<close>.\<close>

definition rankingOf :: "Prediction list \<Rightarrow> User \<Rightarrow> Ranking" where
  "rankingOf examPredictions student =
     (let pred = find (\<lambda>p. studentId p = user_id student) examPredictions;
          totalPoints =
            js_add (to_number (logical_or (optional_field points1 pred) (Num (Fin 0))))
                   (to_number (logical_or (optional_field points2 pred) (Num (Fin 0))))
      in \<lparr>rk_studentId = user_id student, rk_totalPoints = totalPoints\<rparr>)"

definition examRankings :: "User list \<Rightarrow> Prediction list \<Rightarrow> Exam \<Rightarrow> Ranking list" where
  "examRankings students predictions exam =
     (let examPredictions = filter (\<lambda>p. examId p = exam_id exam) predictions
      in array_sort (\<lambda>a b. js_sub (rk_totalPoints b) (rk_totalPoints a))
           (map (rankingOf examPredictions) students))"

definition examResult :: "User \<Rightarrow> User list \<Rightarrow> Prediction list \<Rightarrow> Exam \<Rightarrow> ExamResult" where
  "examResult user students predictions exam =
     (let prediction = find (\<lambda>p. examId p = exam_id exam \<and> studentId p = user_id user) predictions;
          rankings = examRankings students predictions exam;
          userRank = findIndex (\<lambda>r. rk_studentId r = user_id user) rankings + 1;
          userTotalPoints =
            to_number (logical_or
              (optional_field (\<lambda>r. Num (rk_totalPoints r))
                 (find (\<lambda>r. rk_studentId r = user_id user) rankings))
              (Num (Fin 0)))
      in \<lparr>res_examId = exam_id exam,
          res_examTitle = title exam,
          res_examSubject = subject exam,
          res_examDate = date exam,
          res_grade = grade_of exam (user_id user),
          res_rank = userRank,
          res_totalPoints = userTotalPoints,
          res_prediction1 = optional_field prediction1 prediction,
          res_prediction2 = optional_field prediction2 prediction,
          res_points1 = optional_field points1 prediction,
          res_points2 = optional_field points2 prediction\<rparr>)"

definition examResults :: "User \<Rightarrow> Exam list \<Rightarrow> User list \<Rightarrow> Prediction list \<Rightarrow> ExamResult list" where
  "examResults user exams students predictions =
     array_sort (\<lambda>a b. js_sub (getTime (res_examDate b)) (getTime (res_examDate a)))
       (map (examResult user students predictions)
          (filter (\<lambda>exam. isClosed exam \<and> grades exam \<noteq> None \<and> truthy (grade_of exam (user_id user)))
             exams))"

text \<open>
  \<^verbatim>\<open>loadExamResults\<close> with the logged-in user (if any) and the answers of the three API
  calls; \<open>None\<close> is a rejected call. Without a user, and after a failed call, the page's
  state is not set (\<open>None\<close>).
\<close>

definition loadExamResults ::
  "User option \<Rightarrow> Exam list option \<Rightarrow> (string \<Rightarrow> Prediction list option) \<Rightarrow> User list option
     \<Rightarrow> ExamResult list option" where
  "loadExamResults user getAllExams getPredictionsByStudent getAllUsers =
     (case user of
        None \<Rightarrow> None
      | Some u \<Rightarrow>
          (case getAllExams of
             None \<Rightarrow> None
           | Some exams \<Rightarrow>
               (case getPredictionsByStudent (user_id u) of
                  None \<Rightarrow> None
                | Some predictions \<Rightarrow>
                    (case getAllUsers of
                       None \<Rightarrow> None
                     | Some allUsers \<Rightarrow>
                         let students = filter (\<lambda>u. role u = Student) allUsers
                         in Some (examResults u exams students predictions)))))"

section \<open>Auxiliary notions\<close>

text \<open>The real behind a number that is not \<^verbatim>\<open>NaN\<close>.\<close>

fun fin_value :: "jsnum \<Rightarrow> real" where
  "fin_value (Fin r) = r"
| "fin_value NaN = 0"

text \<open>
  Predictions reach the pages as parsed JSON, which has no \<^verbatim>\<open>NaN\<close>: a stored point value
  is absent, \<^verbatim>\<open>null\<close> or a number.
\<close>

definition storedPointsAreNumbers :: "Prediction list \<Rightarrow> bool" where
  "storedPointsAreNumbers predictions =
     list_all (\<lambda>p. \<not> isNaN (points1 p) \<and> \<not> isNaN (points2 p)) predictions"

section \<open>The aggregates as the specification words them\<close>

text \<open>
  The global total in the words of the specification: an exam contributes when its
  resolved status is closed and it has a grade entry for the student; its contribution is,
  for each of the two predictions, the stored points if there are any, else the point
  table's value for the prediction against the grade, else 0.
\<close>

definition hasGradeEntry :: "Exam \<Rightarrow> string \<Rightarrow> bool" where
  "hasGradeEntry exam sid = (case grades exam of None \<Rightarrow> False | Some g \<Rightarrow> g sid \<noteq> None)"

definition spec_points :: "jsval \<Rightarrow> jsval \<Rightarrow> jsval \<Rightarrow> jsnum" where
  "spec_points stored prediction grade =
     (if \<not> nullish stored then to_number stored
      else case calculatePredictionPoints prediction grade of Num n \<Rightarrow> n | _ \<Rightarrow> Fin 0)"

definition spec_examPoints :: "Prediction list \<Rightarrow> User \<Rightarrow> Exam \<Rightarrow> jsnum" where
  "spec_examPoints predictions student exam =
     (case find (\<lambda>p. examId p = exam_id exam \<and> studentId p = user_id student) predictions of
        None \<Rightarrow> Fin 0
      | Some p \<Rightarrow>
          js_add (spec_points (points1 p) (prediction1 p) (grade_of exam (user_id student)))
                 (spec_points (points2 p) (prediction2 p) (grade_of exam (user_id student))))"

definition js_sum :: "jsnum list \<Rightarrow> jsnum" where
  "js_sum xs = fold (\<lambda>x acc. js_add acc x) xs (Fin 0)"

definition spec_totalPoints :: "runtime \<Rightarrow> Exam list \<Rightarrow> Prediction list \<Rightarrow> User \<Rightarrow> jsnum" where
  "spec_totalPoints rt exams predictions student =
     js_sum (map (spec_examPoints predictions student)
               (filter (\<lambda>exam. getExamStatus rt exam = Closed \<and> hasGradeEntry exam (user_id student))
                  exams))"


text \<open>
  The invariant of the specification's data model: points are stored for a prediction only
  if the exam has a grade for that student.
\<close>

definition storedPointsNeedGrade :: "Exam list \<Rightarrow> Prediction list \<Rightarrow> bool" where
  "storedPointsNeedGrade exams predictions =
     list_all (\<lambda>p. list_all (\<lambda>e. examId p = exam_id e \<and> \<not> hasGradeEntry e (studentId p)
                                   \<longrightarrow> nullish (points1 p) \<and> nullish (points2 p)) exams)
       predictions"

text \<open>
  The per-exam total in the words of the specification: the stored points of the student's
  prediction for the exam, each defaulting to 0 when missing, with no use of the point
  table; 0 for a student without a prediction.
\<close>

definition spec_storedPoints :: "jsval \<Rightarrow> jsnum" where
  "spec_storedPoints v = (if nullish v then Fin 0 else to_number v)"

definition spec_examTotal :: "Prediction list \<Rightarrow> Exam \<Rightarrow> User \<Rightarrow> jsnum" where
  "spec_examTotal predictions exam student =
     (case find (\<lambda>p. examId p = exam_id exam \<and> studentId p = user_id student) predictions of
        None \<Rightarrow> Fin 0
      | Some p \<Rightarrow> js_add (spec_storedPoints (points1 p)) (spec_storedPoints (points2 p)))"

section \<open>Sample data\<close>

text \<open>
  Two days in UTC, ten days apart; three students; an exam closed by hand with grade 5.0 for
  student S (E1), an exam of day 0 that is not closed by hand, with grade 4.0 for S (E2),
  and an exam closed by hand whose \<^verbatim>\<open>grades\<close> object is empty (E3).
\<close>

definition day_0 :: runtime where
  "day_0 = \<lparr>clock = 0, local_midnight = fixed_offset_midnight 0\<rparr>"

definition day_10 :: runtime where
  "day_10 = \<lparr>clock = 864000000, local_midnight = fixed_offset_midnight 0\<rparr>"

definition student_S :: User where
  "student_S = \<lparr>user_id = ''S'', username = ''sam'', role = Student\<rparr>"

definition student_T :: User where
  "student_T = \<lparr>user_id = ''T'', username = ''tom'', role = Student\<rparr>"

definition student_U :: User where
  "student_U = \<lparr>user_id = ''U'', username = ''uma'', role = Student\<rparr>"

definition exam_E1 :: Exam where
  "exam_E1 = \<lparr>exam_id = ''E1'', title = ''Algebra'', subject = ''Mathematik'', date = Some 0,
               isClosed = True, grades = Some [''S'' \<mapsto> Fin 5]\<rparr>"

definition exam_E2 :: Exam where
  "exam_E2 = \<lparr>exam_id = ''E2'', title = ''Geometrie'', subject = ''Mathematik'', date = Some 0,
               isClosed = False, grades = Some [''S'' \<mapsto> Fin 4]\<rparr>"

definition exam_E3 :: Exam where
  "exam_E3 = \<lparr>exam_id = ''E3'', title = ''Analysis'', subject = ''Mathematik'', date = Some 0,
               isClosed = True, grades = Some Map.empty\<rparr>"

definition pred_S_E1 :: Prediction where
  "pred_S_E1 = \<lparr>examId = ''E1'', studentId = ''S'', prediction1 = Num (Fin 5),
                 prediction2 = Undefined, points1 = Undefined, points2 = Undefined\<rparr>"

definition pred_T_E1 :: Prediction where
  "pred_T_E1 = \<lparr>examId = ''E1'', studentId = ''T'', prediction1 = Num (Fin 4.5),
                 prediction2 = Undefined, points1 = Num (Fin 3), points2 = Null\<rparr>"

definition pred_S_E2 :: Prediction where
  "pred_S_E2 = \<lparr>examId = ''E2'', studentId = ''S'', prediction1 = Num (Fin 4),
                 prediction2 = Undefined, points1 = Undefined, points2 = Undefined\<rparr>"

definition pred_S_E3 :: Prediction where
  "pred_S_E3 = \<lparr>examId = ''E3'', studentId = ''S'', prediction1 = Num (Fin 4),
                 prediction2 = Undefined, points1 = Num (Fin 3), points2 = Undefined\<rparr>"

section \<open>The point table\<close>

lemma calculatePoints_not_NaN: "calculatePoints p a \<noteq> NaN"
  by (simp add: calculatePoints_def Let_def)

text \<open>
  Claim C3. With \<open>d = |p - a|\<close> as the function computes it, the points are 5 exactly
  when \<open>d = 0\<close>, then 4, 3, 2, 1 on the tiers \<open>(0, 0.25]\<close>, \<open>(0.25, 0.5]\<close>, \<open>(0.5, 0.75]\<close>,
  \<open>(0.75, 1]\<close> with inclusive upper bounds, and 0 for every \<open>d > 1\<close>; a larger difference
  never earns more points.
\<close>

theorem calculatePoints_step_function:
  "(calculatePoints p a = Fin 5 \<longleftrightarrow> js_eq (js_abs (js_sub p a)) (Fin 0))
   \<and> (js_lt (Fin 0) (js_abs (js_sub p a)) \<and> js_le (js_abs (js_sub p a)) (Fin 0.25)
        \<longrightarrow> calculatePoints p a = Fin 4)
   \<and> (js_lt (Fin 0.25) (js_abs (js_sub p a)) \<and> js_le (js_abs (js_sub p a)) (Fin 0.5)
        \<longrightarrow> calculatePoints p a = Fin 3)
   \<and> (js_lt (Fin 0.5) (js_abs (js_sub p a)) \<and> js_le (js_abs (js_sub p a)) (Fin 0.75)
        \<longrightarrow> calculatePoints p a = Fin 2)
   \<and> (js_lt (Fin 0.75) (js_abs (js_sub p a)) \<and> js_le (js_abs (js_sub p a)) (Fin 1)
        \<longrightarrow> calculatePoints p a = Fin 1)
   \<and> (js_gt (js_abs (js_sub p a)) (Fin 1) \<longrightarrow> calculatePoints p a = Fin 0)
   \<and> (js_le (js_abs (js_sub p a)) (js_abs (js_sub p' a'))
        \<longrightarrow> js_le (calculatePoints p' a') (calculatePoints p a))"
  by (cases p; cases a; cases p'; cases a') (simp_all add: calculatePoints_def Let_def)

theorem calculatePoints_step_function_witness:
  "calculatePoints (Fin 4.5) (Fin 4.25) = Fin 4
   \<and> calculatePoints (Fin 4) (Fin 4.5) = Fin 3
   \<and> calculatePoints (Fin 5.25) (Fin 4.5) = Fin 2
   \<and> calculatePoints (Fin 3) (Fin 4) = Fin 1
   \<and> calculatePoints (Fin 2) (Fin 4) = Fin 0
   \<and> js_le (js_abs (js_sub (Fin 4) (Fin 4.5))) (js_abs (js_sub (Fin 3) (Fin 4)))
   \<and> js_le (calculatePoints (Fin 3) (Fin 4)) (calculatePoints (Fin 4) (Fin 4.5))"
proof -
  have h4: "js_lt (Fin 0) (js_abs (js_sub (Fin 4.5) (Fin 4.25)))
            \<and> js_le (js_abs (js_sub (Fin 4.5) (Fin 4.25))) (Fin 0.25)" by simp
  have h3: "js_lt (Fin 0.25) (js_abs (js_sub (Fin 4) (Fin 4.5)))
            \<and> js_le (js_abs (js_sub (Fin 4) (Fin 4.5))) (Fin 0.5)" by simp
  have h2: "js_lt (Fin 0.5) (js_abs (js_sub (Fin 5.25) (Fin 4.5)))
            \<and> js_le (js_abs (js_sub (Fin 5.25) (Fin 4.5))) (Fin 0.75)" by simp
  have h1: "js_lt (Fin 0.75) (js_abs (js_sub (Fin 3) (Fin 4)))
            \<and> js_le (js_abs (js_sub (Fin 3) (Fin 4))) (Fin 1)" by simp
  have h0: "js_gt (js_abs (js_sub (Fin 2) (Fin 4))) (Fin 1)" by simp
  have hm: "js_le (js_abs (js_sub (Fin 4) (Fin 4.5))) (js_abs (js_sub (Fin 3) (Fin 4)))" by simp
  from h4 calculatePoints_step_function [of "Fin 4.5" "Fin 4.25"]
  have "calculatePoints (Fin 4.5) (Fin 4.25) = Fin 4" by blast
  moreover from h3 calculatePoints_step_function [of "Fin 4" "Fin 4.5"]
  have "calculatePoints (Fin 4) (Fin 4.5) = Fin 3" by blast
  moreover from h2 calculatePoints_step_function [of "Fin 5.25" "Fin 4.5"]
  have "calculatePoints (Fin 5.25) (Fin 4.5) = Fin 2" by blast
  moreover from h1 calculatePoints_step_function [of "Fin 3" "Fin 4"]
  have "calculatePoints (Fin 3) (Fin 4) = Fin 1" by blast
  moreover from h0 calculatePoints_step_function [of "Fin 2" "Fin 4"]
  have "calculatePoints (Fin 2) (Fin 4) = Fin 0" by blast
  moreover from hm calculatePoints_step_function [of "Fin 4" "Fin 4.5" "Fin 3" "Fin 4"]
  have "js_le (calculatePoints (Fin 3) (Fin 4)) (calculatePoints (Fin 4) (Fin 4.5))" by blast
  ultimately show ?thesis using hm by blast
qed

text \<open>
  Claim C4. The null-safe wrapper returns \<^verbatim>\<open>undefined\<close>, which is no number and in
  particular not 0, whenever the prediction is \<^verbatim>\<open>undefined\<close> or \<^verbatim>\<open>null\<close>, or the actual
  grade is \<^verbatim>\<open>undefined\<close>, \<^verbatim>\<open>null\<close> or \<^verbatim>\<open>NaN\<close>, whatever the other argument is; so it does
  at \<open>(undefined, 4.0)\<close> and at \<open>(4.0, NaN)\<close>.
\<close>

theorem calculatePredictionPoints_missing:
  "calculatePredictionPoints Undefined a = Undefined
   \<and> calculatePredictionPoints Null a = Undefined
   \<and> calculatePredictionPoints p Undefined = Undefined
   \<and> calculatePredictionPoints p Null = Undefined
   \<and> calculatePredictionPoints p (Num NaN) = Undefined
   \<and> calculatePredictionPoints Undefined (Num (Fin 4.0)) = Undefined
   \<and> calculatePredictionPoints (Num (Fin 4.0)) (Num NaN) = Undefined
   \<and> Undefined \<noteq> Num n"
  by (simp add: calculatePredictionPoints_def)

text \<open>
  Claim C10. A \<^verbatim>\<open>NaN\<close> prediction passes the missing-value checks and scores 0 points
  against every actual grade that is a number other than \<^verbatim>\<open>NaN\<close>, whereas a \<^verbatim>\<open>NaN\<close>
  actual grade yields \<^verbatim>\<open>undefined\<close>.
\<close>

theorem calculatePredictionPoints_NaN_asymmetry:
  "calculatePredictionPoints (Num NaN) (Num (Fin a)) = Num (Fin 0)
   \<and> calculatePredictionPoints (Num (Fin p)) (Num NaN) = Undefined
   \<and> calculatePredictionPoints (Num NaN) (Num NaN) = Undefined"
  by (simp add: calculatePredictionPoints_def calculatePoints_def)

section \<open>The grade options\<close>

lemma binary64_quarter: "\<bar>k\<bar> < 2 ^ 53 \<Longrightarrow> binary64 (of_int k / 4)"
  unfolding binary64_def
  by (rule exI [of _ k], rule exI [of _ "- 2"]) (simp add: power_int_minus)

lemma binary64_int: "\<bar>n\<bar> < 2 ^ 53 \<Longrightarrow> binary64 (of_int n)"
  unfolding binary64_def
  by (rule exI [of _ n], rule exI [of _ 0]) simp

text \<open>
  One iteration from a quarter step \<open>k / 4\<close>: the counter moves to \<open>(k + 1) / 4\<close> and the
  entry pushed is \<open>k / 4\<close>, because every exact intermediate result (\<open>(k + 1) / 4\<close>,
  \<open>25 k\<close>, \<open>k / 4\<close>) is a binary64 number and is returned unrounded.
\<close>

lemma gradeLoop_step:
  assumes rd: "\<forall>x. binary64 x \<longrightarrow> rd x = x" and k: "4 \<le> k" "k \<le> 24"
  shows "gradeLoop rd (of_int k / 4) opts
         = gradeLoop rd (of_int (k + 1) / 4) (opts @ [of_int k / 4])"
proof -
  have le: "(of_int k / 4 :: real) \<le> 6" using k by simp
  have e1: "of_int k / 4 + 0.25 = (of_int (k + 1) / 4 :: real)" by simp
  have "binary64 (of_int (k + 1) / 4)" by (rule binary64_quarter) (use k in simp)
  with rd have e2: "rd (of_int (k + 1) / 4) = of_int (k + 1) / 4" by blast
  have e3: "of_int k / 4 * 100 = (of_int (25 * k) :: real)" by simp
  have "binary64 (of_int (25 * k))" by (rule binary64_int) (use k in simp)
  with rd have e4: "rd (of_int (25 * k)) = of_int (25 * k)" by blast
  have e5: "math_round (of_int (25 * k)) = of_int (25 * k)"
    unfolding math_round_def by (simp add: floor_eq_iff)
  have e6: "(of_int (25 * k) / 100 :: real) = of_int k / 4" by simp
  have "binary64 (of_int k / 4)" by (rule binary64_quarter) (use k in simp)
  with rd have e7: "rd (of_int k / 4) = of_int k / 4" by blast
  show ?thesis
    by (subst gradeLoop.simps) (simp only: le if_True e1 e2 e3 e4 e5 e6 e7)
qed

lemma gradeLoop_run:
  assumes rd: "\<forall>x. binary64 x \<longrightarrow> rd x = x"
  shows "4 \<le> k \<Longrightarrow> k \<le> 25 \<Longrightarrow>
         gradeLoop rd (of_int k / 4) opts = Some (opts @ map (\<lambda>j. of_int j / 4) [k..24])"
proof (induction "nat (25 - k)" arbitrary: k opts)
  case 0
  then have "k = 25" by simp
  then show ?case by (subst gradeLoop.simps) simp
next
  case (Suc n)
  from Suc.hyps(2) Suc.prems have k: "4 \<le> k" "k \<le> 24" by simp_all
  have a: "n = nat (25 - (k + 1))" using Suc.hyps(2) by simp
  have b: "4 \<le> k + 1" "k + 1 \<le> 25" using k by simp_all
  have "gradeLoop rd (of_int k / 4) opts
        = gradeLoop rd (of_int (k + 1) / 4) (opts @ [of_int k / 4])"
    by (rule gradeLoop_step [OF rd k])
  also have "\<dots> = Some ((opts @ [of_int k / 4]) @ map (\<lambda>j. of_int j / 4) [k + 1..24])"
    by (rule Suc.hyps(1) [OF a b])
  also have "(opts @ [of_int k / 4 :: real]) @ map (\<lambda>j. of_int j / 4) [k + 1..24]
             = opts @ map (\<lambda>j. of_int j / 4) [k..24]"
    using k by (subst (2) upto_rec1) simp_all
  finally show ?case .
qed

lemma nth_quarters:
  assumes "k < 21"
  shows "map (\<lambda>j. of_int j / 4) [4..24] ! k = (1 + 0.25 * real k :: real)"
proof -
  have l: "k < length [4..(24::int)]" using assms by simp
  have n: "[4..(24::int)] ! k = 4 + int k" by (rule nth_upto) (use assms in simp)
  show ?thesis unfolding nth_map [OF l] n by (simp add: field_simps)
qed

text \<open>
  Claim C8. On every runtime whose arithmetic returns exact results that are binary64
  numbers unchanged, \<^verbatim>\<open>getGradeOptions\<close> returns, and its result has exactly 21 entries,
  starts with 1.0 and ends with 6.0, consecutive entries differ by exactly 0.25, and entry
  \<open>k\<close> is within 0.001 of (in fact equal to) \<open>1 + 0.25 k\<close>: repeated floating-point
  addition of 0.25 and the rounding to two decimals introduce no drift.
\<close>

theorem getGradeOptions_quarter_steps:
  assumes "\<forall>x. binary64 x \<longrightarrow> rd x = x"
  shows "\<exists>gs. getGradeOptions rd = Some gs \<and> length gs = 21 \<and> hd gs = 1 \<and> last gs = 6
           \<and> (\<forall>k<20. gs ! (k + 1) - gs ! k = 0.25)
           \<and> (\<forall>k<21. \<bar>gs ! k - (1 + 0.25 * real k)\<bar> \<le> 0.001)"
proof -
  let ?gs = "map (\<lambda>j. of_int j / 4 :: real) [4..24]"
  have run: "getGradeOptions rd = Some ?gs"
    using gradeLoop_run [OF assms, of 4 "[]"] by (simp add: getGradeOptions_def)
  have len: "length ?gs = 21" by simp
  have "hd ?gs = 1" by (simp add: upto_rec1)
  moreover have "last ?gs = 6" by (simp add: upto_rec2)
  moreover have "\<forall>k<20. ?gs ! (k + 1) - ?gs ! k = 0.25"
  proof (intro allI impI)
    fix k :: nat assume "k < 20"
    then have "?gs ! (k + 1) = 1 + 0.25 * real (k + 1)" "?gs ! k = 1 + 0.25 * real k"
      using nth_quarters [of "k + 1"] nth_quarters [of k] by simp_all
    then show "?gs ! (k + 1) - ?gs ! k = 0.25" by (simp only:) (simp add: field_simps)
  qed
  moreover have "\<forall>k<21. \<bar>?gs ! k - (1 + 0.25 * real k)\<bar> \<le> 0.001"
  proof (intro allI impI)
    fix k :: nat assume "k < 21"
    then have "?gs ! k = 1 + 0.25 * real k" by (rule nth_quarters)
    then show "\<bar>?gs ! k - (1 + 0.25 * real k)\<bar> \<le> 0.001" by (simp only:) simp
  qed
  ultimately show ?thesis using run len by blast
qed

text \<open>
  The theorem at a rounding that keeps binary64 numbers and sends everything else to 0.
\<close>

theorem getGradeOptions_quarter_steps_witness:
  "\<exists>gs. getGradeOptions (\<lambda>x. if binary64 x then x else 0) = Some gs \<and> length gs = 21
         \<and> hd gs = 1 \<and> last gs = 6
         \<and> (\<forall>k<20. gs ! (k + 1) - gs ! k = 0.25)
         \<and> (\<forall>k<21. \<bar>gs ! k - (1 + 0.25 * real k)\<bar> \<le> 0.001)"
proof -
  have h: "\<forall>x. binary64 x \<longrightarrow> (if binary64 x then x else 0) = x" by simp
  from getGradeOptions_quarter_steps [of "\<lambda>x. if binary64 x then x else 0", OF h]
  show ?thesis .
qed

section \<open>The exam status\<close>

text \<open>
  Claim C2. A manually closed exam is closed whatever the dates are. Otherwise, for an
  exam with a valid date, with \<open>daysSinceExam\<close> the floor of the difference in days
  between the local midnights of the current date and of the exam date, the status is open
  below 1, evaluation from 1 to below 5, and closed from 5 on. In a zone with a constant
  offset from UTC, \<open>daysSinceExam\<close> is the difference of the two calendar day numbers.
\<close>

theorem getExamStatus_resolution:
  "(isClosed exam \<longrightarrow> getExamStatus rt exam = Closed)
   \<and> (\<not> isClosed exam \<and> date exam = Some t \<longrightarrow>
        (let daysSinceExam =
               \<lfloor>(of_int (local_midnight rt (clock rt) - local_midnight rt t) :: real) / 86400000\<rfloor>
         in (daysSinceExam < 1 \<longrightarrow> getExamStatus rt exam = Open)
            \<and> (1 \<le> daysSinceExam \<and> daysSinceExam < 5 \<longrightarrow> getExamStatus rt exam = Evaluation)
            \<and> (5 \<le> daysSinceExam \<longrightarrow> getExamStatus rt exam = Closed)))
   \<and> (local_midnight rt = fixed_offset_midnight tz \<longrightarrow>
        \<lfloor>(of_int (local_midnight rt (clock rt) - local_midnight rt t) :: real) / 86400000\<rfloor>
          = (clock rt + tz) div 86400000 - (t + tz) div 86400000)"
proof (intro conjI impI)
  assume "isClosed exam"
  then show "getExamStatus rt exam = Closed" by (simp add: getExamStatus_def)
next
  assume a: "\<not> isClosed exam \<and> date exam = Some t"
  let ?d = "\<lfloor>(of_int (local_midnight rt (clock rt) - local_midnight rt t) :: real) / 86400000\<rfloor>"
  have st: "getExamStatus rt exam =
        (if 1 \<le> ?d \<and> ?d < 5 then Evaluation else if 5 \<le> ?d then Closed else Open)"
    using a by (simp add: getExamStatus_def Let_def)
  show "let daysSinceExam = ?d
        in (daysSinceExam < 1 \<longrightarrow> getExamStatus rt exam = Open)
            \<and> (1 \<le> daysSinceExam \<and> daysSinceExam < 5 \<longrightarrow> getExamStatus rt exam = Evaluation)
            \<and> (5 \<le> daysSinceExam \<longrightarrow> getExamStatus rt exam = Closed)"
    unfolding Let_def st by auto
next
  assume z: "local_midnight rt = fixed_offset_midnight tz"
  let ?m = "86400000 :: int"
  have mid: "fixed_offset_midnight tz x = ?m * ((x + tz) div ?m) - tz" for x
    unfolding fixed_offset_midnight_def by (simp add: minus_mod_eq_mult_div [symmetric] algebra_simps)
  have "local_midnight rt (clock rt) - local_midnight rt t
        = ?m * ((clock rt + tz) div ?m - (t + tz) div ?m)"
    unfolding z mid by (simp add: algebra_simps)
  then have "\<lfloor>(of_int (local_midnight rt (clock rt) - local_midnight rt t) :: real) / of_int ?m\<rfloor>
        = (clock rt + tz) div ?m - (t + tz) div ?m"
    by (simp only: floor_divide_of_int_eq) simp
  then show "\<lfloor>(of_int (local_midnight rt (clock rt) - local_midnight rt t) :: real) / 86400000\<rfloor>
          = (clock rt + tz) div 86400000 - (t + tz) div 86400000"
    by simp
qed

text \<open>
  One hour ahead of UTC, on day 10 after the epoch: an exam of day 6 is in evaluation, and
  an exam dated tomorrow that was closed by hand is closed.
\<close>

theorem getExamStatus_resolution_witness:
  "getExamStatus \<lparr>clock = 864005000, local_midnight = fixed_offset_midnight 3600000\<rparr>
     \<lparr>exam_id = ''e1'', title = ''Algebra'', subject = ''Mathematik'', date = Some 600000000,
      isClosed = False, grades = None\<rparr> = Evaluation
   \<and> getExamStatus \<lparr>clock = 864005000, local_midnight = fixed_offset_midnight 3600000\<rparr>
     \<lparr>exam_id = ''e1'', title = ''Algebra'', subject = ''Mathematik'', date = Some 950400000,
      isClosed = True, grades = None\<rparr> = Closed
   \<and> \<lfloor>(of_int (fixed_offset_midnight 3600000 864005000
               - fixed_offset_midnight 3600000 600000000) :: real) / 86400000\<rfloor> = 10 - 6"
proof -
  let ?rt = "\<lparr>clock = 864005000, local_midnight = fixed_offset_midnight 3600000\<rparr>"
  let ?e = "\<lparr>exam_id = ''e1'', title = ''Algebra'', subject = ''Mathematik'', date = Some 600000000,
      isClosed = False, grades = None\<rparr>"
  let ?c = "\<lparr>exam_id = ''e1'', title = ''Algebra'', subject = ''Mathematik'', date = Some 950400000,
      isClosed = True, grades = None\<rparr>"
  have z: "local_midnight ?rt = fixed_offset_midnight 3600000" by simp
  have d: "\<lfloor>(of_int (local_midnight ?rt (clock ?rt) - local_midnight ?rt 600000000) :: real) / 86400000\<rfloor> = 4"
    using getExamStatus_resolution [of ?e ?rt 600000000 3600000] z by simp
  have "getExamStatus ?rt ?e = Evaluation"
    using getExamStatus_resolution [of ?e ?rt 600000000 3600000] unfolding Let_def d by simp
  moreover have "getExamStatus ?rt ?c = Closed"
    using getExamStatus_resolution [of ?c ?rt 0 0] by simp
  ultimately show ?thesis using d by simp
qed

text \<open>
  Claim C7, as stated, fails: \<^verbatim>\<open>getExamStatus\<close> has the exam as its only explicit input and
  reads the clock, so the same exam is open when evaluated on its own day and closed when
  evaluated ten days later.
\<close>

theorem getExamStatus_ambient_clock_counterexample:
  "getExamStatus \<lparr>clock = 0, local_midnight = fixed_offset_midnight 0\<rparr>
     \<lparr>exam_id = ''e1'', title = ''Algebra'', subject = ''Mathematik'', date = Some 0,
      isClosed = False, grades = None\<rparr> = Open
   \<and> getExamStatus \<lparr>clock = 864000000, local_midnight = fixed_offset_midnight 0\<rparr>
     \<lparr>exam_id = ''e1'', title = ''Algebra'', subject = ''Mathematik'', date = Some 0,
      isClosed = False, grades = None\<rparr> = Closed"
  by (simp add: getExamStatus_def fixed_offset_midnight_def)

text \<open>
  Claim C7, amended. The status, and with it the submission gate, is determined by the
  manual-closed flag, the local calendar day of the exam date and the local calendar day
  of the clock reading at the call: two evaluations that agree on these three agree on
  the result, whatever the time of day and whatever else differs.
\<close>

theorem getExamStatus_determined_by_days:
  assumes "isClosed e1 = isClosed e2"
    and "map_option (local_midnight r1) (date e1) = map_option (local_midnight r2) (date e2)"
    and "local_midnight r1 (clock r1) = local_midnight r2 (clock r2)"
  shows "getExamStatus r1 e1 = getExamStatus r2 e2 \<and> canSubmitTips r1 e1 = canSubmitTips r2 e2"
  using assms by (simp add: getExamStatus_def canSubmitTips_def)

text \<open>Two readings of the clock on day 3, for two exams held at different hours of day 1.\<close>

theorem getExamStatus_determined_by_days_witness:
  "getExamStatus \<lparr>clock = 259200000, local_midnight = fixed_offset_midnight 0\<rparr>
     \<lparr>exam_id = ''e1'', title = ''Algebra'', subject = ''Mathematik'', date = Some 86400000,
      isClosed = False, grades = None\<rparr>
   = getExamStatus \<lparr>clock = 300000000, local_midnight = fixed_offset_midnight 0\<rparr>
     \<lparr>exam_id = ''e2'', title = ''Geometrie'', subject = ''Mathematik'', date = Some 100000000,
      isClosed = False, grades = None\<rparr>"
proof -
  let ?r1 = "\<lparr>clock = 259200000, local_midnight = fixed_offset_midnight 0\<rparr>"
  let ?r2 = "\<lparr>clock = 300000000, local_midnight = fixed_offset_midnight 0\<rparr>"
  let ?e1 = "\<lparr>exam_id = ''e1'', title = ''Algebra'', subject = ''Mathematik'',
      date = Some 86400000, isClosed = False, grades = None\<rparr>"
  let ?e2 = "\<lparr>exam_id = ''e2'', title = ''Geometrie'', subject = ''Mathematik'',
      date = Some 100000000, isClosed = False, grades = None\<rparr>"
  have a: "isClosed ?e1 = isClosed ?e2" by simp
  have b: "map_option (local_midnight ?r1) (date ?e1) = map_option (local_midnight ?r2) (date ?e2)"
    by (simp add: fixed_offset_midnight_def)
  have c: "local_midnight ?r1 (clock ?r1) = local_midnight ?r2 (clock ?r2)"
    by (simp add: fixed_offset_midnight_def)
  from getExamStatus_determined_by_days [OF a b c] show ?thesis by blast
qed

section \<open>Evaluation\<close>

text \<open>The equations that evaluate the sample data and the two pages on concrete inputs.\<close>

lemmas sample_defs = day_0_def day_10_def student_S_def student_T_def student_U_def exam_E1_def
  exam_E2_def exam_E3_def pred_S_E1_def pred_T_E1_def pred_S_E2_def pred_S_E3_def

lemmas leaderboard_defs = leaderboard_def studentTotals_def totalPointsOf_def addExamPoints_def
  getExamStatus_def fixed_offset_midnight_def array_sort_def withRank_def grade_of_def
  calculatePredictionPoints_def calculatePoints_def nullish_coalesce_def Let_def

lemmas results_defs = examResults_def examResult_def examRankings_def rankingOf_def
  array_sort_def findIndex_def optional_field_def logical_or_def grade_of_def getTime_def Let_def

section \<open>Sorting with a comparator\<close>

text \<open>
  Sorting permutes, whatever the comparator does. With the comparator
  \<open>(a, b) \<mapsto> key b - key a\<close> on keys that are not \<^verbatim>\<open>NaN\<close> it is the stable sort by
  descending key.
\<close>

lemma mset_insert_sorted: "mset (insert_sorted cmp x ys) = add_mset x (mset ys)"
  by (induction ys) simp_all

lemma mset_array_sort: "mset (array_sort cmp xs) = mset xs"
  unfolding array_sort_def by (induction xs) (simp_all add: mset_insert_sorted)

lemma set_array_sort: "set (array_sort cmp xs) = set xs"
  using mset_array_sort [of cmp xs] by (metis set_mset_mset)

lemma length_array_sort: "length (array_sort cmp xs) = length xs"
  using mset_array_sort [of cmp xs] by (metis size_mset)

lemma insert_sorted_insort_key:
  assumes "key x \<noteq> NaN" and "\<forall>y\<in>set ys. key y \<noteq> NaN"
  shows "insert_sorted (\<lambda>a b. js_sub (key b) (key a)) x ys
         = insort_key (\<lambda>e. - fin_value (key e)) x ys"
  using assms
proof (induction ys)
  case Nil
  then show ?case by simp
next
  case (Cons y ys)
  from Cons.prems obtain kx ky where k: "key x = Fin kx" "key y = Fin ky"
    by (cases "key x"; cases "key y") auto
  from Cons show ?case by (simp add: k)
qed

lemma array_sort_sort_key:
  assumes "\<forall>y\<in>set xs. key y \<noteq> NaN"
  shows "array_sort (\<lambda>a b. js_sub (key b) (key a)) xs = sort_key (\<lambda>e. - fin_value (key e)) xs"
  using assms
proof (induction xs)
  case Nil
  then show ?case by (simp add: array_sort_def)
next
  case (Cons x xs)
  then have ih: "array_sort (\<lambda>a b. js_sub (key b) (key a)) xs = sort_key (\<lambda>e. - fin_value (key e)) xs"
    by simp
  have "\<forall>y\<in>set (sort_key (\<lambda>e. - fin_value (key e)) xs). key y \<noteq> NaN"
    using Cons.prems by simp
  then have "insert_sorted (\<lambda>a b. js_sub (key b) (key a)) x (sort_key (\<lambda>e. - fin_value (key e)) xs)
             = insort_key (\<lambda>e. - fin_value (key e)) x (sort_key (\<lambda>e. - fin_value (key e)) xs)"
    using Cons.prems by (intro insert_sorted_insort_key) simp_all
  then show ?case using ih by (simp add: array_sort_def)
qed

lemma array_sort_descending:
  assumes "\<forall>y\<in>set xs. key y \<noteq> NaN"
  shows "sorted_wrt (\<lambda>a b. js_ge (key a) (key b)) (array_sort (\<lambda>a b. js_sub (key b) (key a)) xs)"
proof -
  let ?f = "\<lambda>e. - fin_value (key e)"
  have s: "sorted (map ?f (sort_key ?f xs))" by (rule sorted_sort_key)
  have fin: "\<forall>y\<in>set (sort_key ?f xs). key y \<noteq> NaN" using assms by simp
  have "sorted_wrt (\<lambda>a b. ?f a \<le> ?f b) (sort_key ?f xs)"
    using s by (simp add: sorted_map)
  then have "sorted_wrt (\<lambda>a b. js_ge (key a) (key b)) (sort_key ?f xs)"
  proof (rule sorted_wrt_mono_rel [rotated])
    fix a b assume "a \<in> set (sort_key ?f xs)" "b \<in> set (sort_key ?f xs)" "?f a \<le> ?f b"
    with fin show "js_ge (key a) (key b)" by (cases "key a"; cases "key b") auto
  qed
  then show ?thesis by (simp add: array_sort_sort_key [OF assms])
qed

lemma array_sort_stable:
  assumes "\<forall>y\<in>set xs. key y \<noteq> NaN"
  shows "filter (\<lambda>e. key e = v) (array_sort (\<lambda>a b. js_sub (key b) (key a)) xs)
         = filter (\<lambda>e. key e = v) xs"
proof (cases v)
  case NaN
  have "filter (\<lambda>e. key e = NaN) ys = []" if "set ys = set xs" for ys
    using assms that by (auto simp: filter_empty_conv)
  from this [of xs] this [OF set_array_sort] show ?thesis by (simp add: NaN)
next
  case (Fin r)
  let ?f = "\<lambda>e. - fin_value (key e)"
  have eq: "(key e = v) = (?f e = - r)" if "e \<in> set xs" for e
    using assms that Fin by (cases "key e") auto
  have "filter (\<lambda>e. key e = v) (sort_key ?f xs) = filter (\<lambda>e. ?f e = - r) (sort_key ?f xs)"
    by (rule filter_cong) (simp_all add: eq)
  also have "\<dots> = filter (\<lambda>e. ?f e = - r) xs" by (rule sort_key_stable)
  also have "\<dots> = filter (\<lambda>e. key e = v) xs"
    by (rule filter_cong) (simp_all add: eq)
  finally show ?thesis by (simp add: array_sort_sort_key [OF assms])
qed

section \<open>The global leaderboard\<close>

lemma js_add_not_NaN: "a \<noteq> NaN \<Longrightarrow> b \<noteq> NaN \<Longrightarrow> js_add a b \<noteq> NaN"
  by (cases a; cases b) simp_all

lemma js_add_zero: "js_add acc (Fin 0) = acc"
  by (cases acc) simp_all

lemma coalesced_points_not_NaN:
  assumes "\<not> isNaN stored"
  shows "to_number (nullish_coalesce (nullish_coalesce stored (calculatePredictionPoints pr g))
           (Num (Fin 0))) \<noteq> NaN"
proof (cases stored)
  case (Num n)
  with assms show ?thesis by (cases n) (simp_all add: nullish_coalesce_def)
qed (simp_all add: nullish_coalesce_def calculatePredictionPoints_def calculatePoints_not_NaN)

lemma addExamPoints_not_NaN:
  assumes "storedPointsAreNumbers predictions" and "acc \<noteq> NaN"
  shows "addExamPoints rt predictions student acc exam \<noteq> NaN"
proof (cases "find (\<lambda>p. examId p = exam_id exam \<and> studentId p = user_id student) predictions")
  case None
  with assms show ?thesis by (simp add: addExamPoints_def)
next
  case (Some p)
  then have "p \<in> set predictions" by (auto simp: find_Some_iff)
  with assms(1) have "\<not> isNaN (points1 p)" "\<not> isNaN (points2 p)"
    by (simp_all add: storedPointsAreNumbers_def list_all_iff)
  then show ?thesis
    using assms(2) Some
    by (simp add: addExamPoints_def Let_def js_add_not_NaN coalesced_points_not_NaN)
qed

lemma fold_addExamPoints_not_NaN:
  assumes "storedPointsAreNumbers predictions"
  shows "acc \<noteq> NaN \<Longrightarrow>
         fold (\<lambda>exam totalPoints. addExamPoints rt predictions student totalPoints exam) exams acc \<noteq> NaN"
  by (induction exams arbitrary: acc) (simp_all add: addExamPoints_not_NaN [OF assms])

lemma totalPointsOf_not_NaN:
  "storedPointsAreNumbers predictions \<Longrightarrow> totalPointsOf rt exams predictions student \<noteq> NaN"
  unfolding totalPointsOf_def by (rule fold_addExamPoints_not_NaN) simp_all

lemma studentTotals_not_NaN:
  assumes "storedPointsAreNumbers predictions"
  shows "\<forall>y\<in>set (studentTotals rt exams students predictions). st_totalPoints y \<noteq> NaN"
  by (auto simp: studentTotals_def totalPointsOf_not_NaN [OF assms])

lemma map_withRank_enumerate:
  "map (\<lambda>e. f (lb_studentId e) (lb_studentName e) (lb_totalPoints e)) (map withRank (enumerate n xs))
   = map (\<lambda>t. f (st_studentId t) (st_studentName t) (st_totalPoints t)) xs"
  by (induction xs arbitrary: n) (simp_all add: withRank_def)

lemma filter_withRank_enumerate:
  "map (\<lambda>e. f (lb_studentId e) (lb_studentName e))
     (filter (\<lambda>e. lb_totalPoints e = v) (map withRank (enumerate n xs)))
   = map (\<lambda>t. f (st_studentId t) (st_studentName t)) (filter (\<lambda>t. st_totalPoints t = v) xs)"
  by (induction xs arbitrary: n) (simp_all add: withRank_def)

lemma leaderboard_nth:
  assumes "i < length students"
  shows "lb_rank (leaderboard rt exams students predictions ! i) = int i + 1"
proof -
  let ?s = "array_sort (\<lambda>a b. js_sub (st_totalPoints b) (st_totalPoints a))
              (studentTotals rt exams students predictions)"
  have "length ?s = length students" by (simp add: length_array_sort studentTotals_def)
  with assms have "i < length ?s" by simp
  then show ?thesis by (simp add: leaderboard_def nth_enumerate_eq withRank_def)
qed

lemma leaderboard_length: "length (leaderboard rt exams students predictions) = length students"
  by (simp add: leaderboard_def length_array_sort studentTotals_def)

lemma leaderboard_sorted:
  assumes "storedPointsAreNumbers predictions"
  shows "sorted_wrt (\<lambda>a b. js_ge (lb_totalPoints a) (lb_totalPoints b))
           (leaderboard rt exams students predictions)"
proof -
  let ?s = "array_sort (\<lambda>a b. js_sub (st_totalPoints b) (st_totalPoints a))
              (studentTotals rt exams students predictions)"
  have "sorted_wrt (\<lambda>a b. js_ge (st_totalPoints a) (st_totalPoints b)) ?s"
    by (rule array_sort_descending) (rule studentTotals_not_NaN [OF assms])
  then have "sorted_wrt js_ge (map st_totalPoints ?s)" by (simp add: sorted_wrt_map)
  moreover have "map lb_totalPoints (leaderboard rt exams students predictions) = map st_totalPoints ?s"
    unfolding leaderboard_def by (rule map_withRank_enumerate [where f = "\<lambda>_ _ t. t"])
  ultimately show ?thesis by (simp add: sorted_wrt_map [symmetric, where f = lb_totalPoints] del: sorted_wrt_map)
qed

lemma leaderboard_stable:
  assumes "storedPointsAreNumbers predictions"
  shows "map (\<lambda>e. (lb_studentId e, lb_studentName e))
           (filter (\<lambda>e. lb_totalPoints e = v) (leaderboard rt exams students predictions))
         = map (\<lambda>s. (user_id s, username s))
             (filter (\<lambda>s. totalPointsOf rt exams predictions s = v) students)"
proof -
  let ?t = "studentTotals rt exams students predictions"
  let ?s = "array_sort (\<lambda>a b. js_sub (st_totalPoints b) (st_totalPoints a)) ?t"
  have "map (\<lambda>e. (lb_studentId e, lb_studentName e))
           (filter (\<lambda>e. lb_totalPoints e = v) (leaderboard rt exams students predictions))
        = map (\<lambda>t. (st_studentId t, st_studentName t)) (filter (\<lambda>t. st_totalPoints t = v) ?s)"
    unfolding leaderboard_def by (rule filter_withRank_enumerate [where f = Pair])
  also have "filter (\<lambda>t. st_totalPoints t = v) ?s = filter (\<lambda>t. st_totalPoints t = v) ?t"
    by (rule array_sort_stable) (rule studentTotals_not_NaN [OF assms])
  also have "map (\<lambda>t. (st_studentId t, st_studentName t)) (filter (\<lambda>t. st_totalPoints t = v) ?t)
        = map (\<lambda>s. (user_id s, username s))
             (filter (\<lambda>s. totalPointsOf rt exams predictions s = v) students)"
    by (simp add: studentTotals_def filter_map comp_def)
  finally show ?thesis .
qed

lemma getExamStatus_same_day:
  assumes "local_midnight r1 = local_midnight r2"
    and "local_midnight r1 (clock r1) = local_midnight r2 (clock r2)"
  shows "getExamStatus r1 = getExamStatus r2"
proof (rule ext)
  fix exam
  from assms have "local_midnight r2 (clock r1) = local_midnight r2 (clock r2)" by simp
  then show "getExamStatus r1 exam = getExamStatus r2 exam"
    by (simp add: getExamStatus_def assms(1))
qed

lemma leaderboard_same_day:
  assumes "local_midnight r1 = local_midnight r2"
    and "local_midnight r1 (clock r1) = local_midnight r2 (clock r2)"
  shows "leaderboard r1 exams students predictions = leaderboard r2 exams students predictions"
proof -
  have "addExamPoints r1 = addExamPoints r2"
    by (simp add: fun_eq_iff addExamPoints_def getExamStatus_same_day [OF assms])
  then show ?thesis by (simp add: leaderboard_def studentTotals_def totalPointsOf_def)
qed

text \<open>
  Claim C5, as stated, fails in its last part: the computation reads the clock through
  \<^verbatim>\<open>getExamStatus\<close>, so with exams, students and predictions unchanged, a call on the day
  of exam E2 and a call ten days later return different totals in a different order.
\<close>

theorem leaderboard_clock_counterexample:
  "leaderboard day_0 [exam_E2] [student_T, student_S] [pred_S_E2]
     = [\<lparr>lb_studentId = ''T'', lb_studentName = ''tom'', lb_totalPoints = Fin 0, lb_rank = 1\<rparr>,
        \<lparr>lb_studentId = ''S'', lb_studentName = ''sam'', lb_totalPoints = Fin 0, lb_rank = 2\<rparr>]
   \<and> leaderboard day_10 [exam_E2] [student_T, student_S] [pred_S_E2]
     = [\<lparr>lb_studentId = ''S'', lb_studentName = ''sam'', lb_totalPoints = Fin 5, lb_rank = 1\<rparr>,
        \<lparr>lb_studentId = ''T'', lb_studentName = ''tom'', lb_totalPoints = Fin 0, lb_rank = 2\<rparr>]"
  by (simp add: sample_defs leaderboard_defs)

text \<open>
  Claim C5, amended. For predictions whose stored points are numbers or missing, the
  leaderboard is sorted descending by totalPoints; the students with any one total stand
  in their roster order (no secondary key); there is one entry per student and the entry
  at index \<open>i\<close> has rank \<open>i + 1\<close>; and two calls on unchanged inputs return the same list
  whenever the clock reads the same local day. The arguments are values: the only
  in-place operation of the source sorts the array that \<^verbatim>\<open>map\<close> has just created.
\<close>

theorem leaderboard_sorted_stable_ranked:
  assumes "storedPointsAreNumbers predictions"
  shows "sorted_wrt (\<lambda>a b. js_ge (lb_totalPoints a) (lb_totalPoints b))
           (leaderboard rt exams students predictions)
   \<and> (\<forall>v. map (\<lambda>e. (lb_studentId e, lb_studentName e))
             (filter (\<lambda>e. lb_totalPoints e = v) (leaderboard rt exams students predictions))
           = map (\<lambda>s. (user_id s, username s))
               (filter (\<lambda>s. totalPointsOf rt exams predictions s = v) students))
   \<and> length (leaderboard rt exams students predictions) = length students
   \<and> (\<forall>i<length students. lb_rank (leaderboard rt exams students predictions ! i) = int i + 1)
   \<and> (local_midnight rt' = local_midnight rt
        \<and> local_midnight rt' (clock rt') = local_midnight rt (clock rt)
        \<longrightarrow> leaderboard rt' exams students predictions = leaderboard rt exams students predictions)"
  using leaderboard_sorted [OF assms] leaderboard_stable [OF assms] leaderboard_length
    leaderboard_nth leaderboard_same_day [of rt' rt]
  by blast

theorem leaderboard_sorted_stable_ranked_witness:
  "storedPointsAreNumbers [pred_S_E1]
   \<and> sorted_wrt (\<lambda>a b. js_ge (lb_totalPoints a) (lb_totalPoints b))
       (leaderboard day_0 [exam_E1, exam_E2] [student_T, student_S, student_U] [pred_S_E1])
   \<and> map (\<lambda>e. (lb_studentId e, lb_studentName e))
       (filter (\<lambda>e. lb_totalPoints e = Fin 0)
          (leaderboard day_0 [exam_E1, exam_E2] [student_T, student_S, student_U] [pred_S_E1]))
       = [(''T'', ''tom''), (''U'', ''uma'')]
   \<and> length (leaderboard day_0 [exam_E1, exam_E2] [student_T, student_S, student_U] [pred_S_E1]) = 3
   \<and> lb_rank (leaderboard day_0 [exam_E1, exam_E2] [student_T, student_S, student_U] [pred_S_E1] ! 2) = 3
   \<and> leaderboard \<lparr>clock = 3600000, local_midnight = fixed_offset_midnight 0\<rparr>
         [exam_E1, exam_E2] [student_T, student_S, student_U] [pred_S_E1]
       = leaderboard day_0 [exam_E1, exam_E2] [student_T, student_S, student_U] [pred_S_E1]"
proof -
  let ?later = "\<lparr>clock = 3600000, local_midnight = fixed_offset_midnight 0\<rparr>"
  have wf: "storedPointsAreNumbers [pred_S_E1]"
    by (simp add: storedPointsAreNumbers_def pred_S_E1_def)
  have day: "local_midnight ?later = local_midnight day_0
             \<and> local_midnight ?later (clock ?later) = local_midnight day_0 (clock day_0)"
    by (simp add: day_0_def fixed_offset_midnight_def)
  have zero: "filter (\<lambda>s. totalPointsOf day_0 [exam_E1, exam_E2] [pred_S_E1] s = Fin 0)
                [student_T, student_S, student_U] = [student_T, student_U]"
    by (simp add: sample_defs leaderboard_defs)
  note t = leaderboard_sorted_stable_ranked [OF wf, of day_0 "[exam_E1, exam_E2]"
      "[student_T, student_S, student_U]" ?later]
  from t have "sorted_wrt (\<lambda>a b. js_ge (lb_totalPoints a) (lb_totalPoints b))
       (leaderboard day_0 [exam_E1, exam_E2] [student_T, student_S, student_U] [pred_S_E1])"
    by blast
  moreover from t have "map (\<lambda>e. (lb_studentId e, lb_studentName e))
       (filter (\<lambda>e. lb_totalPoints e = Fin 0)
          (leaderboard day_0 [exam_E1, exam_E2] [student_T, student_S, student_U] [pred_S_E1]))
       = map (\<lambda>s. (user_id s, username s))
           (filter (\<lambda>s. totalPointsOf day_0 [exam_E1, exam_E2] [pred_S_E1] s = Fin 0)
              [student_T, student_S, student_U])"
    by blast
  then have "map (\<lambda>e. (lb_studentId e, lb_studentName e))
       (filter (\<lambda>e. lb_totalPoints e = Fin 0)
          (leaderboard day_0 [exam_E1, exam_E2] [student_T, student_S, student_U] [pred_S_E1]))
       = [(''T'', ''tom''), (''U'', ''uma'')]"
    by (simp only: zero) (simp add: student_T_def student_U_def)
  moreover from t
  have "length (leaderboard day_0 [exam_E1, exam_E2] [student_T, student_S, student_U] [pred_S_E1]) = 3"
    by simp
  moreover from t
  have "lb_rank (leaderboard day_0 [exam_E1, exam_E2] [student_T, student_S, student_U] [pred_S_E1] ! 2) = 3"
    by simp
  moreover from t day
  have "leaderboard ?later [exam_E1, exam_E2] [student_T, student_S, student_U] [pred_S_E1]
       = leaderboard day_0 [exam_E1, exam_E2] [student_T, student_S, student_U] [pred_S_E1]"
    by blast
  ultimately show ?thesis using wf by blast
qed

text \<open>
  The loop of the source adds, for each exam that is closed and carries a \<^verbatim>\<open>grades\<close>
  object, the exam's points as the specification words them.
\<close>

lemma coalesced_points_spec:
  "to_number (nullish_coalesce (nullish_coalesce stored (calculatePredictionPoints pr g)) (Num (Fin 0)))
   = spec_points stored pr g"
  by (cases stored; cases "calculatePredictionPoints pr g")
     (simp_all add: nullish_coalesce_def spec_points_def)

lemma addExamPoints_spec:
  "addExamPoints rt predictions student acc exam =
     (if getExamStatus rt exam = Closed \<and> grades exam \<noteq> None
      then js_add acc (spec_examPoints predictions student exam) else acc)"
proof (cases "getExamStatus rt exam = Closed \<and> grades exam \<noteq> None")
  case False
  then show ?thesis unfolding addExamPoints_def by (simp only: if_False)
next
  case True
  show ?thesis
  proof (cases "find (\<lambda>p. examId p = exam_id exam \<and> studentId p = user_id student) predictions")
    case None
    then show ?thesis
      unfolding addExamPoints_def spec_examPoints_def
      by (simp only: True if_True option.case js_add_zero)
  next
    case (Some p)
    then show ?thesis
      unfolding addExamPoints_def spec_examPoints_def
      by (simp only: True if_True option.case Let_def coalesced_points_spec)
  qed
qed










text \<open>
  The invariant is needed: the guard of the source asks for a \<^verbatim>\<open>grades\<close> object, not for the
  student's entry in it. Exam E3 is closed and has no grade for student S; were 3 points
  stored with the prediction of S all the same, the leaderboard would show them, while the
  sum over the closed exams with a grade entry for S is 0.
\<close>

lemma leaderboard_totalPoints_outside_invariant:
  "\<not> storedPointsNeedGrade [exam_E3] [pred_S_E3]
   \<and> leaderboard day_0 [exam_E3] [student_S] [pred_S_E3]
     = [\<lparr>lb_studentId = ''S'', lb_studentName = ''sam'', lb_totalPoints = Fin 3, lb_rank = 1\<rparr>]
   \<and> spec_totalPoints day_0 [exam_E3] [pred_S_E3] student_S = Fin 0"
  by (simp add: sample_defs leaderboard_defs spec_totalPoints_def hasGradeEntry_def js_sum_def
        storedPointsNeedGrade_def)

section \<open>The per-exam ranking\<close>

lemma find_filter: "find Q (filter P xs) = find (\<lambda>x. P x \<and> Q x) xs"
  by (induction xs) simp_all

lemma or_zero_not_NaN: "to_number (logical_or v (Num (Fin 0))) \<noteq> NaN"
  by (cases v rule: truthy.cases) (simp_all add: logical_or_def)

lemma or_zero_stored: "\<not> isNaN v \<Longrightarrow> to_number (logical_or v (Num (Fin 0))) = spec_storedPoints v"
  by (cases v rule: truthy.cases) (simp_all add: logical_or_def spec_storedPoints_def)

lemma rankingOf_id: "rk_studentId (rankingOf ps s) = user_id s"
  by (simp add: rankingOf_def Let_def)

lemma rankingOf_not_NaN: "rk_totalPoints (rankingOf ps s) \<noteq> NaN"
  by (simp add: rankingOf_def Let_def js_add_not_NaN or_zero_not_NaN)

lemma rankingOf_spec:
  assumes "storedPointsAreNumbers predictions"
  shows "rankingOf (filter (\<lambda>p. examId p = exam_id exam) predictions) s
         = \<lparr>rk_studentId = user_id s, rk_totalPoints = spec_examTotal predictions exam s\<rparr>"
proof (cases "find (\<lambda>p. examId p = exam_id exam \<and> studentId p = user_id s) predictions")
  case None
  then show ?thesis
    by (simp add: rankingOf_def spec_examTotal_def find_filter optional_field_def logical_or_def)
next
  case (Some p)
  then have "p \<in> set predictions" by (auto simp: find_Some_iff)
  with assms have "\<not> isNaN (points1 p)" "\<not> isNaN (points2 p)"
    by (simp_all add: storedPointsAreNumbers_def list_all_iff)
  then show ?thesis
    using Some
    by (simp add: rankingOf_def spec_examTotal_def find_filter optional_field_def or_zero_stored)
qed

lemma findIndex_from_takeWhile:
  "findIndex_from k P xs =
     (if \<exists>x\<in>set xs. P x then k + int (length (takeWhile (\<lambda>x. \<not> P x) xs)) else - 1)"
  by (induction xs arbitrary: k) auto

lemma find_takeWhile:
  "\<exists>x\<in>set xs. P x \<Longrightarrow> find P xs = Some (xs ! length (takeWhile (\<lambda>x. \<not> P x) xs))"
  by (induction xs) auto

lemma takeWhile_index:
  assumes "\<exists>x\<in>set xs. P x"
  shows "length (takeWhile (\<lambda>x. \<not> P x) xs) < length xs"
    and "P (xs ! length (takeWhile (\<lambda>x. \<not> P x) xs))"
    and "\<forall>j<length (takeWhile (\<lambda>x. \<not> P x) xs). \<not> P (xs ! j)"
proof -
  show l: "length (takeWhile (\<lambda>x. \<not> P x) xs) < length xs"
    using assms by (induction xs) auto
  from nth_length_takeWhile [OF l] show "P (xs ! length (takeWhile (\<lambda>x. \<not> P x) xs))" by simp
  show "\<forall>j<length (takeWhile (\<lambda>x. \<not> P x) xs). \<not> P (xs ! j)"
    by (metis nth_mem set_takeWhileD takeWhile_nth)
qed

lemma examRankings_not_NaN:
  "\<forall>r\<in>set (map (rankingOf ps) students). rk_totalPoints r \<noteq> NaN"
  by (simp add: rankingOf_not_NaN)

lemma examRankings_sorted:
  "sorted_wrt (\<lambda>a b. js_ge (rk_totalPoints a) (rk_totalPoints b))
     (examRankings students predictions exam)"
  unfolding examRankings_def Let_def
  by (rule array_sort_descending) (rule examRankings_not_NaN)

lemma examRankings_stable:
  "filter (\<lambda>r. rk_totalPoints r = v) (examRankings students predictions exam)
   = filter (\<lambda>r. rk_totalPoints r = v)
       (map (rankingOf (filter (\<lambda>p. examId p = exam_id exam) predictions)) students)"
  unfolding examRankings_def Let_def
  by (rule array_sort_stable) (rule examRankings_not_NaN)

lemma examRankings_mset:
  "mset (examRankings students predictions exam)
   = mset (map (rankingOf (filter (\<lambda>p. examId p = exam_id exam) predictions)) students)"
  by (simp add: examRankings_def Let_def mset_array_sort)

lemma examRankings_has_user:
  assumes "user_id user \<in> user_id ` set students"
  shows "\<exists>r\<in>set (examRankings students predictions exam). rk_studentId r = user_id user"
proof -
  from assms obtain s where s: "s \<in> set students" "user_id s = user_id user" by auto
  let ?ps = "filter (\<lambda>p. examId p = exam_id exam) predictions"
  have "rankingOf ?ps s \<in> set (examRankings students predictions exam)"
    using s(1) by (simp add: examRankings_def Let_def set_array_sort)
  then show ?thesis using s(2) rankingOf_id by metis
qed

lemma examResult_rank:
  assumes "user_id user \<in> user_id ` set students"
  shows "res_rank (examResult user students predictions exam)
         = 1 + int (length (takeWhile (\<lambda>r. rk_studentId r \<noteq> user_id user)
                              (examRankings students predictions exam)))"
    and "res_totalPoints (examResult user students predictions exam)
         = rk_totalPoints (examRankings students predictions exam
             ! length (takeWhile (\<lambda>r. rk_studentId r \<noteq> user_id user)
                         (examRankings students predictions exam)))"
proof -
  let ?rs = "examRankings students predictions exam"
  let ?P = "\<lambda>r. rk_studentId r = user_id user"
  let ?i = "length (takeWhile (\<lambda>r. \<not> ?P r) ?rs)"
  have ex: "\<exists>r\<in>set ?rs. ?P r" by (rule examRankings_has_user [OF assms])
  show "res_rank (examResult user students predictions exam) = 1 + int ?i"
    using ex by (simp add: examResult_def Let_def findIndex_def findIndex_from_takeWhile)
  have f: "find ?P ?rs = Some (?rs ! ?i)" by (rule find_takeWhile [OF ex])
  have "?rs ! ?i \<in> set ?rs" using takeWhile_index(1) [OF ex] by simp
  then have "rk_totalPoints (?rs ! ?i) \<noteq> NaN"
    by (auto simp: examRankings_def Let_def set_array_sort rankingOf_not_NaN)
  then have "to_number (logical_or (Num (rk_totalPoints (?rs ! ?i))) (Num (Fin 0)))
             = rk_totalPoints (?rs ! ?i)"
    by (cases "rk_totalPoints (?rs ! ?i)") (simp_all add: logical_or_def)
  then show "res_totalPoints (examResult user students predictions exam) = rk_totalPoints (?rs ! ?i)"
    by (simp add: examResult_def Let_def f optional_field_def)
qed

text \<open>
  Claim C6. For one exam and a cohort, with stored points that are numbers or missing and
  the user in the cohort: each student's entry carries the stored points1 plus the stored
  points2 of the student's prediction for the exam, each 0 when missing (0 without a
  prediction), with no use of the point table; the entries are sorted descending by that
  total and the students with any one total keep their cohort order; the user's rank is
  the 1-based position of the user's first entry, and the user's total is that entry's.
\<close>

theorem examRankings_stored_points:
  assumes wf: "storedPointsAreNumbers predictions"
    and member: "user_id user \<in> user_id ` set students"
  shows "mset (examRankings students predictions exam)
           = mset (map (\<lambda>s. \<lparr>rk_studentId = user_id s,
                               rk_totalPoints = spec_examTotal predictions exam s\<rparr>) students)
   \<and> sorted_wrt (\<lambda>a b. js_ge (rk_totalPoints a) (rk_totalPoints b))
       (examRankings students predictions exam)
   \<and> (\<forall>v. map rk_studentId (filter (\<lambda>r. rk_totalPoints r = v) (examRankings students predictions exam))
           = map user_id (filter (\<lambda>s. spec_examTotal predictions exam s = v) students))
   \<and> 1 \<le> res_rank (examResult user students predictions exam)
   \<and> res_rank (examResult user students predictions exam) \<le> int (length students)
   \<and> rk_studentId (examRankings students predictions exam
         ! nat (res_rank (examResult user students predictions exam) - 1)) = user_id user
   \<and> (\<forall>j<nat (res_rank (examResult user students predictions exam) - 1).
         rk_studentId (examRankings students predictions exam ! j) \<noteq> user_id user)
   \<and> res_totalPoints (examResult user students predictions exam)
       = rk_totalPoints (examRankings students predictions exam
           ! nat (res_rank (examResult user students predictions exam) - 1))"
proof -
  let ?rs = "examRankings students predictions exam"
  let ?ps = "filter (\<lambda>p. examId p = exam_id exam) predictions"
  let ?mk = "\<lambda>s. \<lparr>rk_studentId = user_id s, rk_totalPoints = spec_examTotal predictions exam s\<rparr>"
  let ?P = "\<lambda>r. rk_studentId r = user_id user"
  let ?i = "length (takeWhile (\<lambda>r. \<not> ?P r) ?rs)"
  have mk: "map (rankingOf ?ps) students = map ?mk students"
    by (simp add: rankingOf_spec [OF wf])
  have a: "mset ?rs = mset (map ?mk students)"
    by (simp only: examRankings_mset mk)
  have b: "sorted_wrt (\<lambda>a b. js_ge (rk_totalPoints a) (rk_totalPoints b)) ?rs"
    by (rule examRankings_sorted)
  have c: "map rk_studentId (filter (\<lambda>r. rk_totalPoints r = v) ?rs)
           = map user_id (filter (\<lambda>s. spec_examTotal predictions exam s = v) students)" for v
    by (simp only: examRankings_stable mk) (simp add: filter_map comp_def)
  have ex: "\<exists>r\<in>set ?rs. ?P r" by (rule examRankings_has_user [OF member])
  have len: "length ?rs = length students"
    by (simp add: examRankings_def Let_def length_array_sort)
  have r: "res_rank (examResult user students predictions exam) = 1 + int ?i"
    by (rule examResult_rank(1) [OF member])
  then have n: "nat (res_rank (examResult user students predictions exam) - 1) = ?i" by simp
  have d: "1 \<le> res_rank (examResult user students predictions exam)" using r by simp
  have e: "res_rank (examResult user students predictions exam) \<le> int (length students)"
    using r takeWhile_index(1) [OF ex] len by simp
  have f: "rk_studentId (?rs ! ?i) = user_id user" using takeWhile_index(2) [OF ex] .
  have g: "\<forall>j<?i. rk_studentId (?rs ! j) \<noteq> user_id user" using takeWhile_index(3) [OF ex] .
  have h: "res_totalPoints (examResult user students predictions exam) = rk_totalPoints (?rs ! ?i)"
    by (rule examResult_rank(2) [OF member])
  show ?thesis
    unfolding n using a b c d e f g h by blast
qed

text \<open>
  For E1, S has no stored points, T has 3 and U has no prediction: T is first, and S
  stays in front of U.
\<close>

theorem examRankings_stored_points_witness:
  "storedPointsAreNumbers [pred_S_E1, pred_T_E1]
   \<and> user_id student_U \<in> user_id ` set [student_S, student_T, student_U]
   \<and> examRankings [student_S, student_T, student_U] [pred_S_E1, pred_T_E1] exam_E1
       = [\<lparr>rk_studentId = ''T'', rk_totalPoints = Fin 3\<rparr>,
          \<lparr>rk_studentId = ''S'', rk_totalPoints = Fin 0\<rparr>,
          \<lparr>rk_studentId = ''U'', rk_totalPoints = Fin 0\<rparr>]
   \<and> sorted_wrt (\<lambda>a b. js_ge (rk_totalPoints a) (rk_totalPoints b))
       (examRankings [student_S, student_T, student_U] [pred_S_E1, pred_T_E1] exam_E1)
   \<and> map rk_studentId (filter (\<lambda>r. rk_totalPoints r = Fin 0)
        (examRankings [student_S, student_T, student_U] [pred_S_E1, pred_T_E1] exam_E1))
       = [''S'', ''U'']
   \<and> res_rank (examResult student_U [student_S, student_T, student_U] [pred_S_E1, pred_T_E1] exam_E1) = 3
   \<and> res_totalPoints (examResult student_U [student_S, student_T, student_U] [pred_S_E1, pred_T_E1] exam_E1)
       = Fin 0"
proof -
  let ?cohort = "[student_S, student_T, student_U]"
  let ?preds = "[pred_S_E1, pred_T_E1]"
  have wf: "storedPointsAreNumbers ?preds"
    by (simp add: storedPointsAreNumbers_def pred_S_E1_def pred_T_E1_def)
  have member: "user_id student_U \<in> user_id ` set ?cohort" by simp
  have rs: "examRankings ?cohort ?preds exam_E1
       = [\<lparr>rk_studentId = ''T'', rk_totalPoints = Fin 3\<rparr>,
          \<lparr>rk_studentId = ''S'', rk_totalPoints = Fin 0\<rparr>,
          \<lparr>rk_studentId = ''U'', rk_totalPoints = Fin 0\<rparr>]"
    by (simp add: results_defs sample_defs)
  have rank: "res_rank (examResult student_U ?cohort ?preds exam_E1) = 3"
    by (simp only: examResult_def Let_def rs) (simp add: findIndex_def student_U_def)
  have zero: "filter (\<lambda>s. spec_examTotal ?preds exam_E1 s = Fin 0) ?cohort = [student_S, student_U]"
    by (simp add: spec_examTotal_def spec_storedPoints_def sample_defs)
  note t = examRankings_stored_points [OF wf member, of exam_E1]
  from t have "sorted_wrt (\<lambda>a b. js_ge (rk_totalPoints a) (rk_totalPoints b))
       (examRankings ?cohort ?preds exam_E1)" by blast
  moreover from t have "map rk_studentId (filter (\<lambda>r. rk_totalPoints r = Fin 0)
        (examRankings ?cohort ?preds exam_E1))
       = map user_id (filter (\<lambda>s. spec_examTotal ?preds exam_E1 s = Fin 0) ?cohort)"
    by blast
  then have "map rk_studentId (filter (\<lambda>r. rk_totalPoints r = Fin 0)
        (examRankings ?cohort ?preds exam_E1)) = [''S'', ''U'']"
    by (simp only: zero) (simp add: student_S_def student_U_def)
  moreover from t have "res_totalPoints (examResult student_U ?cohort ?preds exam_E1)
       = rk_totalPoints (examRankings ?cohort ?preds exam_E1
           ! nat (res_rank (examResult student_U ?cohort ?preds exam_E1) - 1))"
    by blast
  then have "res_totalPoints (examResult student_U ?cohort ?preds exam_E1) = Fin 0"
    by (simp add: rank rs)
  ultimately show ?thesis using wf member rs rank by blast
qed

section \<open>The result rows\<close>

lemma examResults_set:
  "set (examResults user exams students predictions)
   = examResult user students predictions
       ` {exam \<in> set exams. isClosed exam \<and> grades exam \<noteq> None \<and> truthy (grade_of exam (user_id user))}"
  by (simp add: examResults_def set_array_sort)

lemma truthy_grade_entry: "truthy (grade_of exam sid) \<Longrightarrow> hasGradeEntry exam sid"
  by (auto simp: grade_of_def hasGradeEntry_def split: option.splits)

lemma res_examId_examResult: "res_examId (examResult user students predictions exam) = exam_id exam"
  by (simp add: examResult_def Let_def)

text \<open>
  Claim C9. Every row of the per-student results belongs to an exam whose manual-closed
  flag is set and which has a grade entry for the user; an exam id whose exams all have
  the flag unset has no row. An exam that is closed by the five-day rule alone, with a
  grade entry for the user, yields no row, yet its resolved status is closed and the
  leaderboard's loop adds its points to the student's total.
\<close>

theorem examResults_need_manual_close:
  "(\<forall>r\<in>set (examResults user exams students predictions).
      \<exists>e\<in>set exams. res_examId r = exam_id e \<and> isClosed e \<and> hasGradeEntry e (user_id user))
   \<and> ((\<forall>e\<in>set exams. exam_id e = x \<longrightarrow> \<not> isClosed e)
        \<longrightarrow> x \<notin> res_examId ` set (examResults user exams students predictions))
   \<and> (\<not> isClosed exam \<and> date exam = Some t
        \<and> 5 \<le> \<lfloor>(of_int (local_midnight rt (clock rt) - local_midnight rt t) :: real) / 86400000\<rfloor>
        \<and> hasGradeEntry exam (user_id user)
        \<longrightarrow> examResults user [exam] students predictions = []
            \<and> getExamStatus rt exam = Closed
            \<and> (\<forall>acc. addExamPoints rt allPredictions user acc exam
                       = js_add acc (spec_examPoints allPredictions user exam)))"
proof (intro conjI impI ballI)
  fix r assume "r \<in> set (examResults user exams students predictions)"
  then obtain e where e: "e \<in> set exams" "isClosed e" "truthy (grade_of e (user_id user))"
      "r = examResult user students predictions e"
    unfolding examResults_set by blast
  then show "\<exists>e\<in>set exams. res_examId r = exam_id e \<and> isClosed e \<and> hasGradeEntry e (user_id user)"
    using truthy_grade_entry res_examId_examResult by blast
next
  assume a: "\<forall>e\<in>set exams. exam_id e = x \<longrightarrow> \<not> isClosed e"
  show "x \<notin> res_examId ` set (examResults user exams students predictions)"
  proof
    assume "x \<in> res_examId ` set (examResults user exams students predictions)"
    then obtain e where "e \<in> set exams" "isClosed e" "x = exam_id e"
      unfolding examResults_set using res_examId_examResult by auto
    with a show False by blast
  qed
next
  assume h: "\<not> isClosed exam \<and> date exam = Some t
        \<and> 5 \<le> \<lfloor>(of_int (local_midnight rt (clock rt) - local_midnight rt t) :: real) / 86400000\<rfloor>
        \<and> hasGradeEntry exam (user_id user)"
  then show "examResults user [exam] students predictions = []"
    by (simp add: examResults_def array_sort_def)
  from h show c: "getExamStatus rt exam = Closed"
    by (simp add: getExamStatus_def Let_def)
  from h have g: "grades exam \<noteq> None"
    by (auto simp: hasGradeEntry_def split: option.splits)
  show "\<forall>acc. addExamPoints rt allPredictions user acc exam
                       = js_add acc (spec_examPoints allPredictions user exam)"
    by (simp only: addExamPoints_spec c g) simp
qed

theorem examResults_need_manual_close_witness:
  "examResults student_S [exam_E2] [student_T, student_S] [pred_S_E2] = []
   \<and> getExamStatus day_10 exam_E2 = Closed
   \<and> totalPointsOf day_10 [exam_E2] [pred_S_E2] student_S = Fin 5
   \<and> (\<exists>r\<in>set (examResults student_S [exam_E1, exam_E2] [student_T, student_S] [pred_S_E1]).
         res_examId r = ''E1'')
   \<and> ''E2'' \<notin> res_examId ` set (examResults student_S [exam_E1, exam_E2] [student_T, student_S] [pred_S_E1])"
proof -
  have h: "\<not> isClosed exam_E2 \<and> date exam_E2 = Some 0
        \<and> 5 \<le> \<lfloor>(of_int (local_midnight day_10 (clock day_10) - local_midnight day_10 0) :: real) / 86400000\<rfloor>
        \<and> hasGradeEntry exam_E2 (user_id student_S)"
    by (simp add: sample_defs hasGradeEntry_def fixed_offset_midnight_def)
  note t = examResults_need_manual_close [of student_S "[exam_E1, exam_E2]" "[student_T, student_S]"
      "[pred_S_E1]" "''E2''" exam_E2 0 day_10 "[pred_S_E2]"]
  note u = examResults_need_manual_close [of student_S "[exam_E1, exam_E2]" "[student_T, student_S]"
      "[pred_S_E2]" "''E2''" exam_E2 0 day_10 "[pred_S_E2]"]
  from u h have a: "examResults student_S [exam_E2] [student_T, student_S] [pred_S_E2] = []"
    and b: "getExamStatus day_10 exam_E2 = Closed"
    and c: "addExamPoints day_10 [pred_S_E2] student_S (Fin 0) exam_E2
            = js_add (Fin 0) (spec_examPoints [pred_S_E2] student_S exam_E2)"
    by blast+
  have "spec_examPoints [pred_S_E2] student_S exam_E2 = Fin 5"
    by (simp add: spec_examPoints_def spec_points_def grade_of_def calculatePredictionPoints_def
          calculatePoints_def sample_defs)
  with c have d: "totalPointsOf day_10 [exam_E2] [pred_S_E2] student_S = Fin 5"
    by (simp add: totalPointsOf_def)
  have "\<forall>e\<in>set [exam_E1, exam_E2]. exam_id e = ''E2'' \<longrightarrow> \<not> isClosed e"
    by (simp add: sample_defs)
  with t have e: "''E2'' \<notin> res_examId ` set (examResults student_S [exam_E1, exam_E2] [student_T, student_S] [pred_S_E1])"
    by blast
  have "examResult student_S [student_T, student_S] [pred_S_E1] exam_E1
          \<in> set (examResults student_S [exam_E1, exam_E2] [student_T, student_S] [pred_S_E1])"
    unfolding examResults_set by (simp add: sample_defs grade_of_def)
  then have f: "\<exists>r\<in>set (examResults student_S [exam_E1, exam_E2] [student_T, student_S] [pred_S_E1]).
         res_examId r = ''E1''"
    using res_examId_examResult [of student_S _ _ exam_E1] by (auto simp: exam_E1_def)
  from a b d e f show ?thesis by blast
qed


end
